theory Spec2Isabelle
  imports Main
begin

section \<open>Python values and exceptions\<close>

text \<open>
  The exceptions that the modelled code can raise or catch. \<open>RequestError\<close> and
  \<open>HTTPStatusError\<close> are the two httpx exceptions named in \<open>forge.py\<close>; the others are
  the built-in exceptions raised by \<open>str.format\<close>, subscripting, iteration, unpacking,
  \<open>strptime\<close>, the JSON encoder and a call with a missing argument.
\<close>

datatype exn = RequestError | HTTPStatusError | KeyError | IndexError | ValueError | TypeError

text \<open>Python truthiness of a \<open>str | None\<close> value: \<open>None\<close> and the empty string are false.\<close>

fun truthy :: "string option \<Rightarrow> bool" where
  "truthy None = False"
| "truthy (Some s) = (s \<noteq> [])"

section \<open>\<open>str.format\<close> with keyword arguments\<close>

text \<open>
  \<open>str_format kw field s\<close> renders the format string \<open>s\<close> with the keyword arguments
  \<open>kw\<close>. The second argument is the scanner's mode: \<open>None\<close> in literal text,
  \<open>Some name\<close> inside a replacement field whose name read so far is \<open>name\<close>.
  Doubled braces are escapes; a lone closing brace, a field that is not closed and an
  opening brace inside a field name are \<open>ValueError\<close>; an empty or numeric field name
  asks for a positional argument, of which the callers pass none (\<open>IndexError\<close>); a name
  that is not a keyword argument is \<open>KeyError\<close>. The leftmost failure is the one raised.
  Fields with a conversion, a format specification, or attribute or index access are
  outside the modelled fragment: their names are not keyword arguments here.
\<close>

definition is_digit :: "char \<Rightarrow> bool" where
  "is_digit c = (c \<in> set ''0123456789'')"

fun str_format :: "(string \<Rightarrow> string option) \<Rightarrow> string option \<Rightarrow> string \<Rightarrow> exn + string" where
  "str_format kw None [] = Inr []"
| "str_format kw (Some name) [] = Inl ValueError"
| "str_format kw None (c # cs) =
     (if c = CHR ''{'' then
        (case cs of
           [] \<Rightarrow> Inl ValueError
         | d # ds \<Rightarrow>
             if d = CHR ''{'' then map_sum id ((#) CHR ''{'') (str_format kw None ds)
             else str_format kw (Some []) cs)
      else if c = CHR ''}'' then
        (case cs of
           [] \<Rightarrow> Inl ValueError
         | d # ds \<Rightarrow>
             if d = CHR ''}'' then map_sum id ((#) CHR ''}'') (str_format kw None ds)
             else Inl ValueError)
      else map_sum id ((#) c) (str_format kw None cs))"
| "str_format kw (Some name) (c # cs) =
     (if c = CHR ''}'' then
        (if list_all is_digit name then Inl IndexError
         else case kw name of
           None \<Rightarrow> Inl KeyError
         | Some v \<Rightarrow> map_sum id ((@) v) (str_format kw None cs))
      else if c = CHR ''{'' then Inl ValueError
      else str_format kw (Some (name @ [c])) cs)"

text \<open>
  The keyword arguments of the call in \<open>build_raw_forge_url\<close>:
  \<open>url_format.format(owner=owner, repository=repository, branch=test_branch, file=desired_file)\<close>.
\<close>

definition url_kwargs :: "string \<Rightarrow> string \<Rightarrow> string \<Rightarrow> string \<Rightarrow> string \<Rightarrow> string option" where
  "url_kwargs owner repository branch file' =
     [''owner'' \<mapsto> owner, ''repository'' \<mapsto> repository,
      ''branch'' \<mapsto> branch, ''file'' \<mapsto> file']"

definition format_url :: "string \<Rightarrow> string \<Rightarrow> string \<Rightarrow> string \<Rightarrow> string \<Rightarrow> exn + string" where
  "format_url url_format owner repository branch file' =
     str_format (url_kwargs owner repository branch file') None url_format"

text \<open>
  A forge template (spec, data model): a format string whose replacement fields are among
  \<open>{owner}\<close>, \<open>{repository}\<close>, \<open>{branch}\<close> and \<open>{file}\<close>, that is, one which
  \<open>format\<close> accepts with these four keyword arguments.
\<close>

definition is_forge_template :: "string \<Rightarrow> bool" where
  "is_forge_template url_format = (\<not> isl (format_url url_format [] [] [] []))"

section \<open>The HTTP client\<close>

text \<open>
  A response as far as the code reads it: the status code, the URL of the \<open>next\<close> entry
  of \<open>response.links\<close> (if any), and the value of \<open>response.json()\<close> (\<open>None\<close> when the body
  is not JSON). The network is a function from the requested URL to the response, or to
  \<open>None\<close> when the request fails at the transport level, which httpx reports as a
  \<open>RequestError\<close>.
\<close>

datatype url = URL string

datatype pyval =
    PNone
  | PBool bool
  | PInt int
  | PStr string
  | PList "pyval list"
  | PTuple "pyval list"
  | PDict "(string \<times> pyval) list"
  | PPath string
  | PURL string
  | PDatetime nat nat nat nat nat nat

record response =
  status_code :: nat
  next_link :: "string option"
  json_body :: "pyval option"

type_synonym network = "string \<Rightarrow> response option"

text \<open>\<open>client.head\<close> and \<open>client.get\<close>: the request is recorded in the client's log.\<close>

definition request :: "network \<Rightarrow> string \<Rightarrow> string list \<Rightarrow> (exn + response) \<times> string list" where
  "request net u log =
     (case net u of None \<Rightarrow> (Inl RequestError, log @ [u]) | Some r \<Rightarrow> (Inr r, log @ [u]))"

text \<open>\<open>Response.raise_for_status\<close>: anything but a 2xx status raises.\<close>

definition is_success :: "response \<Rightarrow> bool" where
  "is_success r = (200 \<le> status_code r \<and> status_code r \<le> 299)"

definition raise_for_status :: "response \<Rightarrow> exn + unit" where
  "raise_for_status r = (if is_success r then Inr () else Inl HTTPStatusError)"

section \<open>The raw URL resolver (\<open>forge.py\<close>, \<open>build_raw_forge_url\<close>)\<close>

text \<open>\<open>desired_file or "README.md"\<close>.\<close>

definition file_or_default :: "string option \<Rightarrow> string" where
  "file_or_default desired_file = (if truthy desired_file then the desired_file else ''README.md'')"

text \<open>\<open>(branch,) if branch else ("main", "master")\<close>.\<close>

definition test_branches :: "string option \<Rightarrow> string list" where
  "test_branches branch = (if truthy branch then [the branch] else [''main'', ''master''])"

text \<open>
  The \<open>for\<close> loop over the candidate branches. The result is what the function returns or
  raises, together with the log of the URLs requested. A \<open>RequestError\<close> from \<open>head\<close>
  returns \<open>None\<close> at once; an \<open>HTTPStatusError\<close> from \<open>raise_for_status\<close> is passed over
  and the loop goes on; any other exception leaves the function. Falling out of the
  loop returns \<open>None\<close>.
\<close>

fun probe_branches ::
  "network \<Rightarrow> string \<Rightarrow> string \<Rightarrow> string \<Rightarrow> string \<Rightarrow> string list \<Rightarrow> string list
     \<Rightarrow> (exn + url option) \<times> string list" where
  "probe_branches net url_format owner repository file' [] log = (Inr None, log)"
| "probe_branches net url_format owner repository file' (test_branch # rest) log =
     (case format_url url_format owner repository test_branch file' of
        Inl e \<Rightarrow> (Inl e, log)
      | Inr u \<Rightarrow>
          (case request net u log of
             (Inl e, log') \<Rightarrow> if e = RequestError then (Inr None, log') else (Inl e, log')
           | (Inr resp, log') \<Rightarrow>
               (case raise_for_status resp of
                  Inr _ \<Rightarrow> (Inr (Some (URL u)), log')
                | Inl e \<Rightarrow>
                    if e = HTTPStatusError
                    then probe_branches net url_format owner repository file' rest log'
                    else (Inl e, log'))))"

definition build_raw_forge_url ::
  "network \<Rightarrow> string \<Rightarrow> string \<Rightarrow> string \<Rightarrow> string option \<Rightarrow> string option
     \<Rightarrow> (exn + url option) \<times> string list" where
  "build_raw_forge_url net url_format owner repository branch desired_file =
     probe_branches net url_format owner repository (file_or_default desired_file)
       (test_branches branch) []"

definition github_format :: string where
  "github_format = ''https://raw.githubusercontent.com/{owner}/{repository}/{branch}/{file}''"

definition gitlab_format :: string where
  "gitlab_format = ''https://gitlab.com/{owner}/{repository}/-/raw/{branch}/{file}''"

definition bitbucket_format :: string where
  "bitbucket_format = ''https://bitbucket.org/{owner}/{repository}/raw/{branch}/{file}''"

definition codeberg_format :: string where
  "codeberg_format = ''https://codeberg.org/{owner}/{repository}/raw//branch/{branch}/{file}''"

definition build_raw_github_url ::
  "network \<Rightarrow> string \<Rightarrow> string \<Rightarrow> string option \<Rightarrow> string option
     \<Rightarrow> (exn + url option) \<times> string list" where
  "build_raw_github_url net owner repository branch desired_file =
     build_raw_forge_url net github_format owner repository branch desired_file"

definition build_raw_gitlab_url ::
  "network \<Rightarrow> string \<Rightarrow> string \<Rightarrow> string option \<Rightarrow> string option
     \<Rightarrow> (exn + url option) \<times> string list" where
  "build_raw_gitlab_url net owner repository branch desired_file =
     build_raw_forge_url net gitlab_format owner repository branch desired_file"

definition build_raw_bitbucket_url ::
  "network \<Rightarrow> string \<Rightarrow> string \<Rightarrow> string option \<Rightarrow> string option
     \<Rightarrow> (exn + url option) \<times> string list" where
  "build_raw_bitbucket_url net owner repository branch desired_file =
     build_raw_forge_url net bitbucket_format owner repository branch desired_file"

definition build_raw_codeberg_url ::
  "network \<Rightarrow> string \<Rightarrow> string \<Rightarrow> string option \<Rightarrow> string option
     \<Rightarrow> (exn + url option) \<times> string list" where
  "build_raw_codeberg_url net owner repository branch desired_file =
     build_raw_forge_url net codeberg_format owner repository branch desired_file"

text \<open>
  Vocabulary for stating the decision rule: the URL that substitution yields for a
  candidate branch, and the three outcomes of probing a URL.
\<close>

definition substituted :: "string \<Rightarrow> string \<Rightarrow> string \<Rightarrow> string \<Rightarrow> string \<Rightarrow> string" where
  "substituted url_format owner repository branch file' =
     projr (format_url url_format owner repository branch file')"


definition rejected :: "network \<Rightarrow> string \<Rightarrow> bool" where
  "rejected net u = (case net u of None \<Rightarrow> False | Some r \<Rightarrow> \<not> is_success r)"

definition unreachable :: "network \<Rightarrow> string \<Rightarrow> bool" where
  "unreachable net u = (net u = None)"

section \<open>The star importer (\<open>forge.py\<close>, \<open>_import_github_repo_details\<close>)\<close>

text \<open>
  \<open>o[key]\<close> with a string key: a dictionary looks the key up (\<open>KeyError\<close> when absent);
  every other value here rejects a string subscript with \<open>TypeError\<close>.
\<close>

fun getitem :: "pyval \<Rightarrow> string \<Rightarrow> exn + pyval" where
  "getitem (PDict kvs) key = (case map_of kvs key of None \<Rightarrow> Inl KeyError | Some v \<Rightarrow> Inr v)"
| "getitem _ key = Inl TypeError"

text \<open>
  \<open>for x in o\<close>: lists and tuples yield their elements, a dictionary its keys, a string
  its characters; the other values are not iterable.
\<close>

fun iterate :: "pyval \<Rightarrow> exn + pyval list" where
  "iterate (PList xs) = Inr xs"
| "iterate (PTuple xs) = Inr xs"
| "iterate (PDict kvs) = Inr (map (PStr \<circ> fst) kvs)"
| "iterate (PStr s) = Inr (map (\<lambda>c. PStr [c]) s)"
| "iterate _ = Inl TypeError"

text \<open>
  \<open>datetime.strptime(v, "%Y-%m-%dT%H:%M:%SZ")\<close>. The parser of the standard library is a
  parameter \<open>parse\<close> of the model: it maps a string to the six fields of the timestamp,
  or to \<open>None\<close> where \<open>strptime\<close> raises \<open>ValueError\<close>. An argument that is not a string
  is a \<open>TypeError\<close>.
\<close>

type_synonym parser = "string \<Rightarrow> pyval option"

fun strptime :: "parser \<Rightarrow> pyval \<Rightarrow> exn + pyval" where
  "strptime parse (PStr s) = (case parse s of None \<Rightarrow> Inl ValueError | Some t \<Rightarrow> Inr t)"
| "strptime parse _ = Inl TypeError"

text \<open>The dictionary \<open>details\<close> built for one star item.\<close>

record details =
  owner :: pyval
  repo_name :: pyval
  starred_at :: pyval

text \<open>The body of the inner \<open>for\<close> loop up to \<open>repo_details.append(details)\<close>.\<close>

definition star_details :: "parser \<Rightarrow> pyval \<Rightarrow> exn + details" where
  "star_details parse repo_info =
     (case getitem repo_info ''repo'' of Inl e \<Rightarrow> Inl e | Inr repo \<Rightarrow>
     (case getitem repo_info ''starred_at'' of Inl e \<Rightarrow> Inl e | Inr sa \<Rightarrow>
     (case strptime parse sa of Inl e \<Rightarrow> Inl e | Inr timestamp \<Rightarrow>
     (case getitem repo ''owner'' of Inl e \<Rightarrow> Inl e | Inr ow \<Rightarrow>
     (case getitem ow ''login'' of Inl e \<Rightarrow> Inl e | Inr login \<Rightarrow>
     (case getitem repo ''name'' of Inl e \<Rightarrow> Inl e | Inr name \<Rightarrow>
        Inr \<lparr>owner = login, repo_name = name, starred_at = timestamp\<rparr>))))))"

text \<open>\<open>total_repos is not None and len(repo_details) >= total_repos\<close>.\<close>

definition limit_reached :: "int option \<Rightarrow> details list \<Rightarrow> bool" where
  "limit_reached total_repos repo_details =
     (case total_repos of None \<Rightarrow> False | Some n \<Rightarrow> int (length repo_details) \<ge> n)"

text \<open>
  The inner \<open>for\<close> loop over the items of one page: each item is appended, and the loop
  breaks as soon as the limit is reached after an append.
\<close>

fun collect_page :: "parser \<Rightarrow> int option \<Rightarrow> pyval list \<Rightarrow> details list \<Rightarrow> exn + details list" where
  "collect_page parse total_repos [] repo_details = Inr repo_details"
| "collect_page parse total_repos (repo_info # rest) repo_details =
     (case star_details parse repo_info of
        Inl e \<Rightarrow> Inl e
      | Inr d \<Rightarrow>
          if limit_reached total_repos (repo_details @ [d]) then Inr (repo_details @ [d])
          else collect_page parse total_repos rest (repo_details @ [d]))"

text \<open>
  One iteration of the \<open>while\<close> loop, after the request: the \<open>try\<close> body from the
  assignment of the next link on. It either leaves the function (\<open>Done\<close>, with what is
  returned or raised) or goes round again (\<open>Again\<close>, with the next link and the list).
\<close>

datatype step = Done "exn + details list option" | Again "string option" "details list"

definition page_body :: "parser \<Rightarrow> int option \<Rightarrow> response \<Rightarrow> details list \<Rightarrow> exn + step" where
  "page_body parse total_repos resp repo_details =
     (case raise_for_status resp of Inl e \<Rightarrow> Inl e | Inr _ \<Rightarrow>
     (case json_body resp of None \<Rightarrow> Inl ValueError | Some stars_response \<Rightarrow>
     (case iterate stars_response of Inl e \<Rightarrow> Inl e | Inr items \<Rightarrow>
     (case collect_page parse total_repos items repo_details of Inl e \<Rightarrow> Inl e | Inr ds \<Rightarrow>
        if limit_reached total_repos ds then Inr (Done (Inr (Some ds)))
        else Inr (Again (next_link resp) ds)))))"

text \<open>\<open>except (RequestError, HTTPStatusError): return None\<close>; anything else propagates.\<close>

definition handle_request_errors :: "exn + step \<Rightarrow> step" where
  "handle_request_errors r =
     (case r of
        Inl e \<Rightarrow> if e = RequestError \<or> e = HTTPStatusError then Done (Inr None) else Done (Inl e)
      | Inr s \<Rightarrow> s)"

definition page_step ::
  "network \<Rightarrow> parser \<Rightarrow> int option \<Rightarrow> string \<Rightarrow> details list \<Rightarrow> string list \<Rightarrow> step \<times> string list" where
  "page_step net parse total_repos u repo_details log =
     (case request net u log of
        (Inl e, log') \<Rightarrow> (handle_request_errors (Inl e), log')
      | (Inr resp, log') \<Rightarrow>
          (handle_request_errors (page_body parse total_repos resp repo_details), log'))"

text \<open>
  The \<open>while next_page_of_results\<close> loop. A feed whose next links never end keeps the
  loop running: then the function has no result (\<open>None\<close>).
\<close>

partial_function (option) fetch_pages ::
  "network \<Rightarrow> parser \<Rightarrow> int option \<Rightarrow> string option \<Rightarrow> details list \<Rightarrow> string list
     \<Rightarrow> ((exn + details list option) \<times> string list) option" where
  "fetch_pages net parse total_repos next_page repo_details log =
     (if truthy next_page then
        (case page_step net parse total_repos (the next_page) repo_details log of
           (Done r, log') \<Rightarrow> Some (r, log')
         | (Again next_page' repo_details', log') \<Rightarrow>
             fetch_pages net parse total_repos next_page' repo_details' log')
      else Some (Inr (Some repo_details), log))"

declare fetch_pages.simps [code]

definition starred_url :: "string \<Rightarrow> string" where
  "starred_url username = ''https://api.github.com/users/'' @ username @ ''/starred''"

definition import_github_repo_details ::
  "network \<Rightarrow> parser \<Rightarrow> string \<Rightarrow> int option
     \<Rightarrow> ((exn + details list option) \<times> string list) option" where
  "import_github_repo_details net parse username total_repos =
     fetch_pages net parse total_repos (Some (starred_url username)) [] []"

text \<open>
  \<open>loop_state_after k\<close>: the state of the \<open>while\<close> loop after \<open>k\<close> iterations that all
  went round again, when the loop is about to request a further page: the URL of that
  page, the list accumulated so far, and the log. It is \<open>None\<close> when the loop has left
  the function or run out of pages before.
\<close>

fun loop_state_after ::
  "nat \<Rightarrow> network \<Rightarrow> parser \<Rightarrow> int option \<Rightarrow> string option \<Rightarrow> details list \<Rightarrow> string list
     \<Rightarrow> (string \<times> details list \<times> string list) option" where
  "loop_state_after 0 net parse total_repos next_page repo_details log =
     (if truthy next_page then Some (the next_page, repo_details, log) else None)"
| "loop_state_after (Suc k) net parse total_repos next_page repo_details log =
     (if truthy next_page then
        (case page_step net parse total_repos (the next_page) repo_details log of
           (Done r, log') \<Rightarrow> None
         | (Again next_page' repo_details', log') \<Rightarrow>
             loop_state_after k net parse total_repos next_page' repo_details' log')
      else None)"

section \<open>The orchestration (\<open>forge.py\<close>, \<open>import_github_stars\<close>)\<close>

text \<open>
  \<open>asyncio.gather(*tasks)\<close>: the tasks run concurrently and finish in some order, given
  here as the list \<open>order\<close> of task indices. Each task that finishes puts its value into
  the slot of its own index; a task that raises makes \<open>gather\<close> raise. The result is the
  list of the slots once every slot is filled, and there is none (\<open>None\<close>) while a task
  has not finished.
\<close>

fun complete :: "(exn + 'a) list \<Rightarrow> nat list \<Rightarrow> 'a option list \<Rightarrow> exn + 'a option list" where
  "complete tasks [] slots = Inr slots"
| "complete tasks (i # order) slots =
     (if i < length tasks then
        (case tasks ! i of
           Inl e \<Rightarrow> Inl e
         | Inr v \<Rightarrow> complete tasks order (slots[i := Some v]))
      else complete tasks order slots)"

definition gather :: "nat list \<Rightarrow> (exn + 'a) list \<Rightarrow> (exn + 'a list) option" where
  "gather order tasks =
     (case complete tasks order (replicate (length tasks) None) of
        Inl e \<Rightarrow> Some (Inl e)
      | Inr slots \<Rightarrow> map_option Inr (those slots))"

text \<open>
  \<open>import_github_stars\<close>. The values of \<open>repo["owner"]\<close> and \<open>repo["repo_name"]\<close> are
  whatever the feed carried; \<open>render\<close> is the text that \<open>str.format\<close> substitutes for such
  a value (the value itself for a string). Iterating over the \<open>None\<close> that the importer
  returns on a failed request is a \<open>TypeError\<close>. Each resolution has a client of its own,
  so only its outcome is kept.
\<close>

definition import_github_stars ::
  "network \<Rightarrow> parser \<Rightarrow> (pyval \<Rightarrow> string) \<Rightarrow> nat list \<Rightarrow> string \<Rightarrow> int option
     \<Rightarrow> (exn + url option list) option" where
  "import_github_stars net parse render order username total_repos =
     (case import_github_repo_details net parse username total_repos of
        None \<Rightarrow> None
      | Some (Inl e, log) \<Rightarrow> Some (Inl e)
      | Some (Inr None, log) \<Rightarrow> Some (Inl TypeError)
      | Some (Inr (Some repo_details), log) \<Rightarrow>
          gather order
            (map (\<lambda>repo. fst (build_raw_github_url net (render (owner repo))
                                (render (repo_name repo)) None None))
               repo_details))"

section \<open>The bookmark store (\<open>github_stars.py\<close>)\<close>

text \<open>
  \<open>GitHubStar\<close> is a named tuple; its field types are annotations only, so each field
  holds a Python value.
\<close>

record GitHubStar =
  title :: pyval
  location :: pyval
  date_starred :: pyval

text \<open>
  \<open>github_stars_file\<close> has one required positional parameter, \<open>username\<close>. The model
  takes the list of the positional arguments of a call: a call with any other number of
  arguments is a \<open>TypeError\<close>. The name of the file is the string literal of the source,
  which is not an f-string. \<open>data_directory\<close> is the path that the data-directory
  resolver (not part of these sources) returns.
\<close>

definition github_stars_file :: "string \<Rightarrow> string list \<Rightarrow> exn + string" where
  "github_stars_file data_directory args =
     (case args of
        [username] \<Rightarrow> Inr (data_directory @ ''/'' @ ''{username}_github_stars.json'')
      | _ \<Rightarrow> Inl TypeError)"

text \<open>\<open>GithubStarEncoder.default\<close>: \<open>str(o) if isinstance(o, (Path, URL)) else o\<close>.\<close>

fun default :: "pyval \<Rightarrow> pyval" where
  "default (PPath s) = PStr s"
| "default (PURL s) = PStr s"
| "default o' = o'"

text \<open>The first exception of a list of results, or all their values.\<close>

fun sequence :: "(exn + 'a) list \<Rightarrow> exn + 'a list" where
  "sequence [] = Inr []"
| "sequence (Inl e # rs) = Inl e"
| "sequence (Inr v # rs) = map_sum id ((#) v) (sequence rs)"

text \<open>
  \<open>json.dumps(o, cls=GithubStarEncoder)\<close>, with the JSON document modelled by the value
  it denotes (a tuple is written as an array). For a value that JSON does not know the
  encoder calls \<open>default\<close> and encodes what it returns; when \<open>default\<close> returns the object
  itself the encoder meets it a second time and raises \<open>ValueError\<close> (circular
  reference).
\<close>

fun dumps :: "pyval \<Rightarrow> exn + pyval" where
  "dumps PNone = Inr PNone"
| "dumps (PBool b) = Inr (PBool b)"
| "dumps (PInt i) = Inr (PInt i)"
| "dumps (PStr s) = Inr (PStr s)"
| "dumps (PList xs) = map_sum id PList (sequence (map dumps xs))"
| "dumps (PTuple xs) = map_sum id PList (sequence (map dumps xs))"
| "dumps (PDict kvs) =
     map_sum id (\<lambda>vs. PDict (zip (map fst kvs) vs)) (sequence (map (\<lambda>kv. dumps (snd kv)) kvs))"
| "dumps o' =
     (case default o' of
        PStr s \<Rightarrow> Inr (PStr s)
      | _ \<Rightarrow> Inl ValueError)"

text \<open>
  The file system maps a path to the text of the file there; a text is modelled by the
  JSON value it denotes, or is not JSON at all.
\<close>

datatype file_text = JsonText pyval | OtherText

type_synonym filesystem = "string \<Rightarrow> file_text option"

definition star_tuple :: "GitHubStar \<Rightarrow> pyval" where
  "star_tuple b = PTuple [title b, location b, date_starred b]"

text \<open>
  \<open>save_bookmarks\<close>: \<open>github_stars_file().write_text(dumps(bookmarks, ...))\<close>. The call
  \<open>github_stars_file()\<close> is evaluated first, and passes no argument.
\<close>

definition save_bookmarks :: "string \<Rightarrow> filesystem \<Rightarrow> GitHubStar list \<Rightarrow> exn + filesystem" where
  "save_bookmarks data_directory fs bookmarks =
     (case github_stars_file data_directory [] of
        Inl e \<Rightarrow> Inl e
      | Inr path \<Rightarrow>
          (case dumps (PList (map star_tuple bookmarks)) of
             Inl e \<Rightarrow> Inl e
           | Inr doc \<Rightarrow> Inr (fs(path \<mapsto> JsonText doc))))"

text \<open>\<open>URL(location)\<close>: a URL is built from a string (or a URL).\<close>

fun make_url :: "pyval \<Rightarrow> exn + pyval" where
  "make_url (PStr s) = Inr (PURL s)"
| "make_url (PURL s) = Inr (PURL s)"
| "make_url _ = Inl TypeError"

text \<open>One round of the comprehension: \<open>(title, location, date_starred)\<close> unpacks a row.\<close>

definition load_row :: "pyval \<Rightarrow> exn + GitHubStar" where
  "load_row row =
     (case iterate row of
        Inl e \<Rightarrow> Inl e
      | Inr [t, l, d] \<Rightarrow>
          (case make_url l of
             Inl e \<Rightarrow> Inl e
           | Inr u \<Rightarrow> Inr \<lparr>title = t, location = u, date_starred = d\<rparr>)
      | Inr _ \<Rightarrow> Inl ValueError)"

text \<open>
  \<open>load_bookmarks\<close>: the condition \<open>(github_stars := github_stars_file()).exists()\<close> is
  evaluated first, and passes no argument.
\<close>

definition load_bookmarks :: "string \<Rightarrow> filesystem \<Rightarrow> exn + GitHubStar list" where
  "load_bookmarks data_directory fs =
     (case github_stars_file data_directory [] of
        Inl e \<Rightarrow> Inl e
      | Inr path \<Rightarrow>
          (case fs path of
             None \<Rightarrow> Inr []
           | Some OtherText \<Rightarrow> Inl ValueError
           | Some (JsonText doc) \<Rightarrow>
               (case iterate doc of
                  Inl e \<Rightarrow> Inl e
                | Inr rows \<Rightarrow> sequence (map load_row rows))))"

section \<open>Concrete inputs\<close>

text \<open>
  A parser for the zero-padded form \<open>YYYY-MM-DDTHH:MM:SSZ\<close> of the timestamp format,
  with the calendar checks of \<open>datetime\<close>. It instantiates the parameter \<open>parse\<close> where
  the model is run on a concrete feed.
\<close>

definition digits_value :: "string \<Rightarrow> nat option" where
  "digits_value s =
     (if s \<noteq> [] \<and> list_all is_digit s
      then Some (foldl (\<lambda>n c. 10 * n + (of_char c - 48)) 0 s) else None)"

definition days_in_month :: "nat \<Rightarrow> nat \<Rightarrow> nat" where
  "days_in_month y m =
     (if m = 2 then (if y mod 4 = 0 \<and> (y mod 100 \<noteq> 0 \<or> y mod 400 = 0) then 29 else 28)
      else if m \<in> {4, 6, 9, 11} then 30 else 31)"

definition parse_fixed_utc :: parser where
  "parse_fixed_utc s =
     (if length s = 20 \<and> map ((!) s) [4, 7, 10, 13, 16, 19] = ''--T::Z'' then
        (case map digits_value
                [take 4 s, take 2 (drop 5 s), take 2 (drop 8 s),
                 take 2 (drop 11 s), take 2 (drop 14 s), take 2 (drop 17 s)] of
           [Some y, Some m, Some d, Some h, Some mi, Some se] \<Rightarrow>
             if 1 \<le> y \<and> 1 \<le> m \<and> m \<le> 12 \<and> 1 \<le> d \<and> d \<le> days_in_month y m
                \<and> h \<le> 23 \<and> mi \<le> 59 \<and> se \<le> 59
             then Some (PDatetime y m d h mi se) else None
         | _ \<Rightarrow> None)
      else None)"

text \<open>An item of the starred feed, and a page of the feed answered with status 200.\<close>

definition star_item :: "string \<Rightarrow> string \<Rightarrow> string \<Rightarrow> pyval" where
  "star_item login name starred =
     PDict [(''starred_at'', PStr starred),
            (''repo'', PDict [(''name'', PStr name), (''owner'', PDict [(''login'', PStr login)])])]"

definition ok_page :: "string option \<Rightarrow> pyval list \<Rightarrow> response" where
  "ok_page nxt items = \<lparr>status_code = 200, next_link = nxt, json_body = Some (PList items)\<rparr>"

definition plain_response :: "nat \<Rightarrow> response" where
  "plain_response code = \<lparr>status_code = code, next_link = None, json_body = None\<rparr>"

text \<open>
  A network: the user \<open>octocat\<close> has two pages of stars, the second of which holds an
  item whose \<open>starred_at\<close> is not a timestamp; the user \<open>hubot\<close> has a first page whose
  next page answers 503; the user \<open>ghost\<close> has a first page whose next page cannot be
  reached; the README of \<open>foo/bar\<close> exists on \<open>main\<close>, that of \<open>baz/qux\<close> on \<open>master\<close>;
  every other URL answers 404.
\<close>

definition demo_net :: network where
  "demo_net u =
     (if u = ''https://api.github.com/users/octocat/starred'' then
        Some (ok_page (Some ''https://api.github.com/user/1/starred?page=2'')
               [star_item ''foo'' ''bar'' ''2023-01-01T00:00:00Z'',
                star_item ''baz'' ''qux'' ''2023-01-02T03:04:05Z''])
      else if u = ''https://api.github.com/user/1/starred?page=2'' then
        Some (ok_page None
               [star_item ''abc'' ''def'' ''2023-01-03T00:00:00Z'',
                star_item ''bad'' ''date'' ''yesterday'',
                star_item ''ghi'' ''jkl'' ''2023-01-04T00:00:00Z''])
      else if u = ''https://api.github.com/users/hubot/starred'' then
        Some (ok_page (Some ''https://api.github.com/user/2/starred?page=2'')
               [star_item ''foo'' ''bar'' ''2023-01-01T00:00:00Z''])
      else if u = ''https://api.github.com/user/2/starred?page=2'' then
        Some (plain_response 503)
      else if u = ''https://api.github.com/users/ghost/starred'' then
        Some (ok_page (Some ''https://api.github.com/user/3/starred?page=2'')
               [star_item ''foo'' ''bar'' ''2023-01-01T00:00:00Z''])
      else if u = ''https://api.github.com/user/3/starred?page=2'' then None
      else if u = ''https://raw.githubusercontent.com/foo/bar/main/README.md'' then
        Some (plain_response 200)
      else if u = ''https://raw.githubusercontent.com/baz/qux/master/README.md'' then
        Some (plain_response 200)
      else Some (plain_response 404))"


text \<open>The text substituted for a string; other values do not occur in the feeds above.\<close>

fun render_str :: "pyval \<Rightarrow> string" where
  "render_str (PStr s) = s"
| "render_str _ = []"

section \<open>The raw URL resolver: properties\<close>

lemma str_format_isl_dom:
  "dom kw1 = dom kw2 \<Longrightarrow> isl (str_format kw1 m s) = isl (str_format kw2 m s)"
proof (induction kw1 m s rule: str_format.induct)
  case (3 kw c cs)
  then show ?case by (auto split: list.splits simp: isl_map_sum)
next
  case (4 kw name c cs)
  have "(kw name = None) = (kw2 name = None)"
    using "4.prems" by (metis domIff)
  with 4 show ?case by (auto split: option.splits simp: isl_map_sum)
qed simp_all

lemma dom_url_kwargs:
  fixes owner :: string
  shows "dom (url_kwargs owner repository branch file')
           = {''owner'', ''repository'', ''branch'', ''file''}"
  by (auto simp: url_kwargs_def split: if_splits)

lemma forge_template_formats:
  fixes owner :: string
  assumes "is_forge_template url_format"
  shows "format_url url_format owner repository branch file'
           = Inr (substituted url_format owner repository branch file')"
proof -
  have "isl (format_url url_format owner repository branch file')
          = isl (format_url url_format [] [] [] [])"
    unfolding format_url_def by (rule str_format_isl_dom) (simp add: dom_url_kwargs)
  with assms have "\<not> isl (format_url url_format owner repository branch file')"
    by (simp add: is_forge_template_def)
  then show ?thesis by (simp add: substituted_def)
qed




lemma forge_formats_are_templates:
  "is_forge_template github_format" "is_forge_template gitlab_format"
  "is_forge_template bitbucket_format" "is_forge_template codeberg_format"
  by code_simp+





section \<open>The bookmark store: properties\<close>

text \<open>
  C3 (the file of the bookmark store is specific to the username). The code computes
  the same path for every username: the file name is the literal
  \<open>{username}_github_stars.json\<close>, in which the username is never substituted. The
  theorem evaluates \<open>github_stars_file\<close> at the usernames \<open>alice\<close> and \<open>bob\<close>.
\<close>

theorem github_stars_file_ignores_username:
  "github_stars_file ''/data'' [''alice''] = Inr ''/data/{username}_github_stars.json''
   \<and> github_stars_file ''/data'' [''bob''] = Inr ''/data/{username}_github_stars.json''"
  by (simp add: github_stars_file_def)

lemma github_stars_file_same_for_all:
  "github_stars_file data_directory [u1] = github_stars_file data_directory [u2]"
  by (simp add: github_stars_file_def)

lemma github_stars_file_no_argument:
  "github_stars_file data_directory [] = Inl TypeError"
  by (simp add: github_stars_file_def)

text \<open>
  C4 (saving succeeds for every list of bookmarks). The code raises \<open>TypeError\<close> on every
  list, the empty one included, since \<open>save_bookmarks\<close> calls \<open>github_stars_file\<close> without
  the username; no file is written.
\<close>

theorem save_bookmarks_raises:
  "save_bookmarks data_directory fs bookmarks = Inl TypeError"
  by (simp add: save_bookmarks_def github_stars_file_no_argument)

text \<open>
  C5 (loading returns the empty list when the file does not exist). The code raises
  \<open>TypeError\<close> whatever the file system holds, the empty file system included, since
  \<open>load_bookmarks\<close> calls \<open>github_stars_file\<close> without the username.
\<close>

theorem load_bookmarks_raises:
  "load_bookmarks data_directory Map.empty = Inl TypeError
   \<and> load_bookmarks data_directory fs = Inl TypeError"
  by (simp add: load_bookmarks_def github_stars_file_no_argument)

text \<open>
  C2 (saving and then loading reproduces the bookmarks). On the code there is nothing to
  load: saving one bookmark raises and leaves no file system behind, and so does loading
  from the file system in which the document had been written by hand.
\<close>

theorem save_then_load_raises:
  "save_bookmarks ''/data'' Map.empty
       [\<lparr>title = PStr ''frogmouth'',
         location = PURL ''https://raw.githubusercontent.com/foo/bar/main/README.md'',
         date_starred = PStr ''2023-01-01T00:00:00Z''\<rparr>] = Inl TypeError
   \<and> load_bookmarks ''/data''
       [''/data/{username}_github_stars.json'' \<mapsto>
          JsonText (PList [PList [PStr ''frogmouth'',
            PStr ''https://raw.githubusercontent.com/foo/bar/main/README.md'',
            PStr ''2023-01-01T00:00:00Z'']])] = Inl TypeError"
  by (simp add: save_bookmarks_def load_bookmarks_def github_stars_file_no_argument)

text \<open>
  Were the path computed, a bookmark whose \<open>date_starred\<close> is a \<open>datetime\<close> would still
  not be written: \<open>default\<close> hands the \<open>datetime\<close> back unchanged.
\<close>

lemma dumps_datetime_raises:
  "dumps (PList (map star_tuple
      [\<lparr>title = PStr t, location = PURL l, date_starred = PDatetime y m d h mi se\<rparr>]))
   = Inl ValueError"
  by (simp add: star_tuple_def)

section \<open>The star importer: properties\<close>

lemma loop_state_after_fetch_pages:
  "loop_state_after k net parse total_repos next_page repo_details log = Some (u, ds, log')
   \<Longrightarrow> fetch_pages net parse total_repos next_page repo_details log
         = fetch_pages net parse total_repos (Some u) ds log'"
proof (induction k arbitrary: next_page repo_details log)
  case 0
  then show ?case by (cases next_page) (auto split: if_splits)
next
  case (Suc k)
  from Suc.prems have t: "truthy next_page" by (auto split: if_splits)
  obtain st l where ps: "page_step net parse total_repos (the next_page) repo_details log = (st, l)"
    by (cases "page_step net parse total_repos (the next_page) repo_details log")
  from Suc.prems t ps obtain n' d' where st: "st = Again n' d'"
    and rest: "loop_state_after k net parse total_repos n' d' l = Some (u, ds, log')"
    by (cases st) auto
  have "fetch_pages net parse total_repos next_page repo_details log
          = fetch_pages net parse total_repos n' d' l"
    by (subst fetch_pages.simps) (simp add: t ps st)
  with Suc.IH[OF rest] show ?case by simp
qed

lemma loop_state_after_truthy:
  "loop_state_after k net parse total_repos next_page repo_details log = Some (u, ds, log')
   \<Longrightarrow> u \<noteq> []"
proof (induction k arbitrary: next_page repo_details log)
  case 0
  then show ?case by (cases next_page) (auto split: if_splits)
next
  case (Suc k)
  then show ?case
    by (auto split: if_splits prod.splits step.splits)
qed

lemma page_step_failed_fetch:
  "unreachable net u \<or> rejected net u
   \<Longrightarrow> page_step net parse total_repos u repo_details log = (Done (Inr None), log @ [u])"
  by (auto simp: page_step_def request_def unreachable_def rejected_def page_body_def
        raise_for_status_def handle_request_errors_def split: option.splits)

text \<open>
  C8 (a failed page fetch returns \<open>None\<close>). Whenever the loop, after any number of
  pages, requests a page and the request fails at the transport level or is answered
  with a status that is not a success, the importer returns \<open>None\<close>: no exception is
  raised, and the list accumulated from the earlier pages is not returned. The failed
  request is the last one made.
\<close>

theorem failed_fetch_returns_none:
  assumes "loop_state_after k net parse total_repos (Some (starred_url username)) [] []
             = Some (u, repo_details, log)"
    and "unreachable net u \<or> rejected net u"
  shows "import_github_repo_details net parse username total_repos = Some (Inr None, log @ [u])"
proof -
  have "u \<noteq> []" using assms(1) by (rule loop_state_after_truthy)
  then have "fetch_pages net parse total_repos (Some u) repo_details log
               = Some (Inr None, log @ [u])"
    by (subst fetch_pages.simps) (simp add: page_step_failed_fetch[OF assms(2)])
  with loop_state_after_fetch_pages[OF assms(1)] show ?thesis
    by (simp add: import_github_repo_details_def)
qed

text \<open>
  The feed of \<open>hubot\<close>: the first page gives one item and a next link, the second page
  answers 503.
\<close>

theorem failed_fetch_returns_none_witness:
  "loop_state_after 1 demo_net parse_fixed_utc None (Some (starred_url ''hubot'')) [] []
     = Some (''https://api.github.com/user/2/starred?page=2'',
             [\<lparr>owner = PStr ''foo'', repo_name = PStr ''bar'',
               starred_at = PDatetime 2023 1 1 0 0 0\<rparr>],
             [''https://api.github.com/users/hubot/starred''])
   \<and> rejected demo_net ''https://api.github.com/user/2/starred?page=2''
   \<and> import_github_repo_details demo_net parse_fixed_utc ''hubot'' None
       = Some (Inr None, [''https://api.github.com/users/hubot/starred'',
                          ''https://api.github.com/user/2/starred?page=2''])"
proof -
  have reach: "loop_state_after 1 demo_net parse_fixed_utc None (Some (starred_url ''hubot'')) [] []
     = Some (''https://api.github.com/user/2/starred?page=2'',
             [\<lparr>owner = PStr ''foo'', repo_name = PStr ''bar'',
               starred_at = PDatetime 2023 1 1 0 0 0\<rparr>],
             [''https://api.github.com/users/hubot/starred''])"
    by code_simp
  have rej: "rejected demo_net ''https://api.github.com/user/2/starred?page=2''"
    by code_simp
  from failed_fetch_returns_none [OF reach, OF disjI2, OF rej] reach rej
  show ?thesis by simp
qed

lemma getitem_raises:
  "getitem v key = Inl e \<Longrightarrow> e = KeyError \<or> e = TypeError"
  by (cases v) (auto split: option.splits)

lemma strptime_raises:
  "strptime parse v = Inl e \<Longrightarrow> e = ValueError \<or> e = TypeError"
  by (cases v) (auto split: option.splits)

lemma star_details_raises:
  "star_details parse repo_info = Inl e \<Longrightarrow> e = KeyError \<or> e = TypeError \<or> e = ValueError"
  unfolding star_details_def
  by (auto split: sum.splits dest: getitem_raises strptime_raises)

lemma collect_page_raises:
  "collect_page parse total_repos items repo_details = Inl e
   \<Longrightarrow> e = KeyError \<or> e = TypeError \<or> e = ValueError"
proof (induction items arbitrary: repo_details)
  case Nil
  then show ?case by simp
next
  case (Cons x items)
  then show ?case
    by (auto split: sum.splits if_splits dest: star_details_raises)
qed

lemma star_details_unparsable:
  assumes "getitem repo_info ''starred_at'' = Inr (PStr s)" and "parse s = None"
  shows "\<exists>e. star_details parse repo_info = Inl e"
  using assms unfolding star_details_def by (auto split: sum.splits)

lemma collect_page_reaches_unparsable:
  assumes bad: "\<exists>e. star_details parse bad = Inl e"
    and lim: "pre = [] \<or> (case total_repos of None \<Rightarrow> True
                | Some n \<Rightarrow> int (length repo_details + length pre) < n)"
  shows "\<exists>e. collect_page parse total_repos (pre @ bad # post) repo_details = Inl e"
  using lim
proof (induction pre arbitrary: repo_details)
  case Nil
  from bad show ?case by auto
next
  case (Cons x pre)
  show ?case
  proof (cases "star_details parse x")
    case (Inl e)
    then show ?thesis by simp
  next
    case (Inr d)
    from Cons.prems have nr: "\<not> limit_reached total_repos (repo_details @ [d])"
      by (auto simp: limit_reached_def split: option.splits)
    from Cons.prems have "pre = [] \<or> (case total_repos of None \<Rightarrow> True
                | Some n \<Rightarrow> int (length (repo_details @ [d]) + length pre) < n)"
      by (auto split: option.splits)
    from Cons.IH[OF this] Inr nr show ?thesis by simp
  qed
qed

lemma page_step_raises:
  assumes "net u = Some resp" and "is_success resp" and "json_body resp = Some (PList items)"
    and "collect_page parse total_repos items repo_details = Inl e"
  shows "page_step net parse total_repos u repo_details log = (Done (Inl e), log @ [u])"
proof -
  from collect_page_raises[OF assms(4)] have "e \<noteq> RequestError \<and> e \<noteq> HTTPStatusError"
    by auto
  with assms show ?thesis
    by (simp add: page_step_def request_def page_body_def raise_for_status_def
          handle_request_errors_def)
qed

text \<open>
  C7, as amended (an unparsable timestamp fails the import). If the importer comes to a
  star item whose \<open>starred_at\<close> does not parse, that is, the page of the item is fetched
  with success after any number of pages, and the limit, if there is one, is not yet
  met by the items before it, then the whole import fails with an exception raised to
  the caller: no list is returned, and the item is not skipped.
\<close>

theorem unparsable_star_fails_import:
  assumes reach: "loop_state_after k net parse total_repos (Some (starred_url username)) [] []
                    = Some (u, repo_details, log)"
    and page: "net u = Some resp \<and> is_success resp
                 \<and> json_body resp = Some (PList (pre @ bad # post))"
    and item: "getitem bad ''starred_at'' = Inr (PStr s) \<and> parse s = None"
    and lim: "pre = [] \<or> (case total_repos of None \<Rightarrow> True
                | Some n \<Rightarrow> int (length repo_details + length pre) < n)"
  shows "\<exists>e. import_github_repo_details net parse username total_repos
               = Some (Inl e, log @ [u])"
proof -
  from item have "\<exists>e. star_details parse bad = Inl e"
    by (auto intro: star_details_unparsable)
  from collect_page_reaches_unparsable[OF this lim] obtain e
    where e: "collect_page parse total_repos (pre @ bad # post) repo_details = Inl e"
    by blast
  from page have ps: "page_step net parse total_repos u repo_details log
                        = (Done (Inl e), log @ [u])"
    by (intro page_step_raises[OF _ _ _ e]) auto
  have "u \<noteq> []" using reach by (rule loop_state_after_truthy)
  then have "fetch_pages net parse total_repos (Some u) repo_details log
               = Some (Inl e, log @ [u])"
    by (subst fetch_pages.simps) (simp add: ps)
  with loop_state_after_fetch_pages[OF reach] show ?thesis
    by (simp add: import_github_repo_details_def)
qed

text \<open>
  The feed of \<open>octocat\<close> without a limit: the second page holds the item starred
  \<open>yesterday\<close> after one good item.
\<close>

theorem unparsable_star_fails_import_witness:
  "loop_state_after 1 demo_net parse_fixed_utc None (Some (starred_url ''octocat'')) [] []
     = Some (''https://api.github.com/user/1/starred?page=2'',
             [\<lparr>owner = PStr ''foo'', repo_name = PStr ''bar'',
               starred_at = PDatetime 2023 1 1 0 0 0\<rparr>,
              \<lparr>owner = PStr ''baz'', repo_name = PStr ''qux'',
               starred_at = PDatetime 2023 1 2 3 4 5\<rparr>],
             [''https://api.github.com/users/octocat/starred''])
   \<and> getitem (star_item ''bad'' ''date'' ''yesterday'') ''starred_at'' = Inr (PStr ''yesterday'')
   \<and> parse_fixed_utc ''yesterday'' = None
   \<and> (\<exists>e. import_github_repo_details demo_net parse_fixed_utc ''octocat'' None
            = Some (Inl e, [''https://api.github.com/users/octocat/starred'',
                            ''https://api.github.com/user/1/starred?page=2'']))"
proof -
  let ?u = "''https://api.github.com/user/1/starred?page=2''"
  let ?resp = "ok_page None
               [star_item ''abc'' ''def'' ''2023-01-03T00:00:00Z'',
                star_item ''bad'' ''date'' ''yesterday'',
                star_item ''ghi'' ''jkl'' ''2023-01-04T00:00:00Z'']"
  have reach: "loop_state_after 1 demo_net parse_fixed_utc None
                 (Some (starred_url ''octocat'')) [] []
     = Some (?u,
             [\<lparr>owner = PStr ''foo'', repo_name = PStr ''bar'',
               starred_at = PDatetime 2023 1 1 0 0 0\<rparr>,
              \<lparr>owner = PStr ''baz'', repo_name = PStr ''qux'',
               starred_at = PDatetime 2023 1 2 3 4 5\<rparr>],
             [''https://api.github.com/users/octocat/starred''])"
    by code_simp
  have net: "demo_net ?u = Some ?resp"
    by (simp add: demo_net_def)
  have ok: "is_success ?resp"
    by (simp add: ok_page_def is_success_def)
  have body: "json_body ?resp = Some (PList ([star_item ''abc'' ''def'' ''2023-01-03T00:00:00Z'']
                @ star_item ''bad'' ''date'' ''yesterday''
                # [star_item ''ghi'' ''jkl'' ''2023-01-04T00:00:00Z'']))"
    by (simp add: ok_page_def)
  have item: "getitem (star_item ''bad'' ''date'' ''yesterday'') ''starred_at''
                = Inr (PStr ''yesterday'')"
    by (simp add: star_item_def)
  have bad: "parse_fixed_utc ''yesterday'' = None"
    by code_simp
  have lim: "[star_item ''abc'' ''def'' ''2023-01-03T00:00:00Z''] = [] \<or>
       (case None :: int option of None \<Rightarrow> True
        | Some n \<Rightarrow> int (length [\<lparr>owner = PStr ''foo'', repo_name = PStr ''bar'',
               starred_at = PDatetime 2023 1 1 0 0 0\<rparr>,
              \<lparr>owner = PStr ''baz'', repo_name = PStr ''qux'',
               starred_at = PDatetime 2023 1 2 3 4 5\<rparr>]
             + length [star_item ''abc'' ''def'' ''2023-01-03T00:00:00Z'']) < n)"
    by simp
  from unparsable_star_fails_import [OF reach conjI [OF net conjI [OF ok body]]
      conjI [OF item bad] lim]
  show ?thesis using reach item bad by simp
qed

text \<open>
  C7 as stated fails when the limit is met before the item: with the limit 3, the import
  of the same feed stops after the first item of the second page and returns three
  items, although the next item of that page does not parse.
\<close>

theorem unparsable_star_beyond_limit_counterexample:
  "demo_net ''https://api.github.com/user/1/starred?page=2''
     = Some (ok_page None
               [star_item ''abc'' ''def'' ''2023-01-03T00:00:00Z'',
                star_item ''bad'' ''date'' ''yesterday'',
                star_item ''ghi'' ''jkl'' ''2023-01-04T00:00:00Z''])
   \<and> parse_fixed_utc ''yesterday'' = None
   \<and> import_github_repo_details demo_net parse_fixed_utc ''octocat'' (Some 3)
       = Some (Inr (Some [\<lparr>owner = PStr ''foo'', repo_name = PStr ''bar'',
                            starred_at = PDatetime 2023 1 1 0 0 0\<rparr>,
                          \<lparr>owner = PStr ''baz'', repo_name = PStr ''qux'',
                            starred_at = PDatetime 2023 1 2 3 4 5\<rparr>,
                          \<lparr>owner = PStr ''abc'', repo_name = PStr ''def'',
                            starred_at = PDatetime 2023 1 3 0 0 0\<rparr>]),
               [''https://api.github.com/users/octocat/starred'',
                ''https://api.github.com/user/1/starred?page=2''])"
  by code_simp

text \<open>
  C6 (the result never has more items than the limit, and no page is requested once the
  limit is met). The code tests the limit only after it has appended an item: with the
  limit 0 it requests the first page and returns one item.
\<close>

theorem limit_zero_returns_one_item:
  "demo_net (starred_url ''hubot'')
     = Some (ok_page (Some ''https://api.github.com/user/2/starred?page=2'')
               [star_item ''foo'' ''bar'' ''2023-01-01T00:00:00Z''])
   \<and> import_github_repo_details demo_net parse_fixed_utc ''hubot'' (Some 0)
       = Some (Inr (Some [\<lparr>owner = PStr ''foo'', repo_name = PStr ''bar'',
                            starred_at = PDatetime 2023 1 1 0 0 0\<rparr>]),
               [''https://api.github.com/users/hubot/starred''])"
  by code_simp

text \<open>
  For a limit of at least one the bound does hold: whatever list the importer returns
  has no more items than the limit.
\<close>

lemma collect_page_within_limit:
  "collect_page parse (Some n) items repo_details = Inr ds
   \<Longrightarrow> int (length repo_details) < n \<Longrightarrow> int (length ds) \<le> n"
proof (induction items arbitrary: repo_details)
  case Nil
  then show ?case by simp
next
  case (Cons x items)
  then show ?case
    by (auto simp: limit_reached_def split: sum.splits if_splits)
qed

lemma page_step_within_limit:
  assumes "int (length repo_details) < n"
  shows "(page_step net parse (Some n) u repo_details log = (Done (Inr (Some ds)), log')
            \<longrightarrow> int (length ds) \<le> n)
       \<and> (page_step net parse (Some n) u repo_details log = (Again nxt ds, log')
            \<longrightarrow> int (length ds) < n)"
  using assms collect_page_within_limit[of parse n _ repo_details]
  by (auto simp: page_step_def request_def page_body_def handle_request_errors_def
        limit_reached_def split: option.splits sum.splits if_splits)

lemma fetch_pages_within_limit:
  assumes "fetch_pages net parse (Some n) next_page repo_details log = Some (Inr (Some ds), log')"
    and "int (length repo_details) < n"
  shows "int (length ds) \<le> n"
proof -
  let ?P = "\<lambda>(net :: network) (parse :: parser) total_repos (next_page :: string option)
              repo_details (log :: string list) (r :: (exn + details list option) \<times> string list).
              total_repos = Some n \<longrightarrow> int (length repo_details) < n
                \<longrightarrow> (\<forall>ds. fst r = Inr (Some ds) \<longrightarrow> int (length ds) \<le> n)"
  have "?P net parse (Some n) next_page repo_details log (Inr (Some ds), log')"
  proof (rule fetch_pages.raw_induct[where P = ?P, OF _ assms(1)])
    fix f net parse total_repos next_page repo_details log r
    assume IH: "\<And>parse total_repos next_page repo_details log b y.
        f parse total_repos next_page repo_details log b = Some y
        \<Longrightarrow> ?P parse total_repos next_page repo_details log b y"
      and body: "(if truthy next_page
          then case page_step net parse total_repos (the next_page) repo_details log of
                 (Done r, log') \<Rightarrow> Some (r, log')
               | (Again next_page' repo_details', log') \<Rightarrow>
                   f net parse total_repos next_page' repo_details' log'
          else Some (Inr (Some repo_details), log)) = Some r"
    show "?P net parse total_repos next_page repo_details log r"
    proof (intro impI allI)
      fix ds assume tr: "total_repos = Some n" and len: "int (length repo_details) < n"
        and r: "fst r = Inr (Some ds)"
      show "int (length ds) \<le> n"
      proof (cases "truthy next_page")
        case False
        with body r len show ?thesis by auto
      next
        case True
        obtain st l where ps: "page_step net parse (Some n) (the next_page) repo_details log = (st, l)"
          by (cases "page_step net parse (Some n) (the next_page) repo_details log")
        show ?thesis
        proof (cases st)
          case (Done res)
          with body True ps tr r have "res = Inr (Some ds)" by auto
          with page_step_within_limit[OF len] ps Done
          show ?thesis by blast
        next
          case (Again nxt ds')
          with page_step_within_limit[OF len] ps
          have len': "int (length ds') < n" by blast
          from body True ps tr Again have "f net parse total_repos nxt ds' l = Some r" by simp
          from IH[OF this] tr len' r show ?thesis by simp
        qed
      qed
    qed
  qed
  with assms(2) show ?thesis by simp
qed

lemma import_within_positive_limit:
  assumes "import_github_repo_details net parse username (Some n) = Some (Inr (Some ds), log)"
    and "1 \<le> n"
  shows "int (length ds) \<le> n"
  using assms fetch_pages_within_limit[of net parse n "Some (starred_url username)" "[]" "[]" ds log]
  by (simp add: import_github_repo_details_def)

section \<open>The orchestration: properties\<close>

lemma probe_branches_no_raise:
  fixes owner :: string
  assumes "is_forge_template url_format"
  shows "\<exists>r. fst (probe_branches net url_format owner repository file' bs log) = Inr r"
proof (induction bs arbitrary: log)
  case Nil
  then show ?case by simp
next
  case (Cons b bs)
  show ?case
  proof (cases "net (substituted url_format owner repository b file')")
    case None
    then show ?thesis
      by (simp add: forge_template_formats[OF assms] request_def)
  next
    case (Some resp)
    with Cons.IH show ?thesis
      by (simp add: forge_template_formats[OF assms] request_def raise_for_status_def)
  qed
qed

lemma build_raw_github_url_no_raise:
  fixes owner :: string
  shows "\<exists>r. fst (build_raw_github_url net owner repository branch desired_file) = Inr r"
  unfolding build_raw_github_url_def build_raw_forge_url_def
  by (rule probe_branches_no_raise) (rule forge_formats_are_templates)

lemma complete_all_values:
  assumes "\<forall>i<length tasks. tasks ! i = Inr (vals ! i)"
  shows "\<exists>slots'. complete tasks order slots = Inr slots'
           \<and> length slots' = length slots
           \<and> (\<forall>i<length slots. slots' ! i
                 = (if i \<in> set order \<and> i < length tasks then Some (vals ! i) else slots ! i))"
proof (induction order arbitrary: slots)
  case Nil
  then show ?case by simp
next
  case (Cons j order)
  show ?case
  proof (cases "j < length tasks")
    case False
    with Cons.IH[of slots] show ?thesis by auto
  next
    case True
    with assms have tj: "tasks ! j = Inr (vals ! j)" by simp
    from Cons.IH[of "slots[j := Some (vals ! j)]"] obtain slots'
      where s: "complete tasks order (slots[j := Some (vals ! j)]) = Inr slots'"
        "length slots' = length slots"
        "\<forall>i<length slots. slots' ! i
           = (if i \<in> set order \<and> i < length tasks then Some (vals ! i)
              else slots[j := Some (vals ! j)] ! i)"
      by auto
    have "\<forall>i<length slots. slots' ! i
            = (if i \<in> set (j # order) \<and> i < length tasks then Some (vals ! i) else slots ! i)"
      using s(3) True by (auto simp: nth_list_update)
    with s(1,2) True tj show ?thesis by simp
  qed
qed

lemma those_map_Some: "those (map Some xs) = Some xs"
  by (induction xs) auto

lemma gather_in_launch_order:
  assumes vals: "length vals = length tasks" "\<forall>i<length tasks. tasks ! i = Inr (vals ! i)"
    and order: "set order = {0..<length tasks}"
  shows "gather order tasks = Some (Inr vals)"
proof -
  from complete_all_values[OF vals(2), of order "replicate (length tasks) None"]
  obtain slots' where s: "complete tasks order (replicate (length tasks) None) = Inr slots'"
    "length slots' = length tasks"
    "\<forall>i<length tasks. slots' ! i
       = (if i \<in> set order \<and> i < length tasks then Some (vals ! i)
          else replicate (length tasks) None ! i)"
    by auto
  have "slots' = map Some vals"
    using s(2,3) vals(1) order by (intro nth_equalityI) auto
  with s(1) show ?thesis by (simp add: gather_def those_map_Some)
qed

text \<open>
  C9 (one outcome per identifier, in the order of the identifiers). Whenever the
  importer returns a list of identifiers, then for every order in which the resolutions
  finish, the orchestration returns a list with exactly one entry per identifier, and
  the entry at each position is the outcome (a URL or \<open>None\<close>) of resolving the
  identifier at that position.
\<close>

theorem stars_resolved_in_input_order:
  assumes "import_github_repo_details net parse username total_repos
             = Some (Inr (Some ids), log)"
    and "set order = {0..<length ids}"
  shows "\<exists>urls. import_github_stars net parse render order username total_repos = Some (Inr urls)
           \<and> length urls = length ids
           \<and> (\<forall>i<length ids.
                 fst (build_raw_github_url net (render (owner (ids ! i)))
                        (render (repo_name (ids ! i))) None None) = Inr (urls ! i))"
proof -
  let ?task = "\<lambda>repo. fst (build_raw_github_url net (render (owner repo))
                            (render (repo_name repo)) None None)"
  let ?urls = "map (\<lambda>repo. projr (?task repo)) ids"
  have each: "?task repo = Inr (projr (?task repo))" for repo
    using build_raw_github_url_no_raise[of net "render (owner repo)" "render (repo_name repo)"
        None None]
    by auto
  have "gather order (map ?task ids) = Some (Inr ?urls)"
    using assms(2) each by (intro gather_in_launch_order) auto
  then have "import_github_stars net parse render order username total_repos = Some (Inr ?urls)"
    by (simp add: import_github_stars_def assms(1))
  moreover have "length ?urls = length ids" by simp
  moreover have "\<forall>i<length ids. ?task (ids ! i) = Inr (?urls ! i)"
  proof (intro allI impI)
    fix i assume "i < length ids"
    then have nth: "?urls ! i = projr (?task (ids ! i))" by simp
    show "?task (ids ! i) = Inr (?urls ! i)"
      unfolding nth by (rule each)
  qed
  ultimately show ?thesis by blast
qed

text \<open>
  The first two stars of \<open>octocat\<close>, with the second resolution finishing first.
\<close>

theorem stars_resolved_in_input_order_witness:
  "import_github_repo_details demo_net parse_fixed_utc ''octocat'' (Some 2)
     = Some (Inr (Some [\<lparr>owner = PStr ''foo'', repo_name = PStr ''bar'',
                          starred_at = PDatetime 2023 1 1 0 0 0\<rparr>,
                        \<lparr>owner = PStr ''baz'', repo_name = PStr ''qux'',
                          starred_at = PDatetime 2023 1 2 3 4 5\<rparr>]),
             [''https://api.github.com/users/octocat/starred''])
   \<and> set [1, 0] = {0..<2::nat}
   \<and> import_github_stars demo_net parse_fixed_utc render_str [1, 0] ''octocat'' (Some 2)
       = Some (Inr [Some (URL ''https://raw.githubusercontent.com/foo/bar/main/README.md''),
                    Some (URL ''https://raw.githubusercontent.com/baz/qux/master/README.md'')])"
proof -
  let ?ids = "[\<lparr>owner = PStr ''foo'', repo_name = PStr ''bar'',
                 starred_at = PDatetime 2023 1 1 0 0 0\<rparr>,
               \<lparr>owner = PStr ''baz'', repo_name = PStr ''qux'',
                 starred_at = PDatetime 2023 1 2 3 4 5\<rparr>]"
  have imp: "import_github_repo_details demo_net parse_fixed_utc ''octocat'' (Some 2)
     = Some (Inr (Some ?ids), [''https://api.github.com/users/octocat/starred''])"
    by code_simp
  have ord: "set [1, 0] = {0..<length ?ids}"
    by auto
  have r0: "fst (build_raw_github_url demo_net ''foo'' ''bar'' None None)
              = Inr (Some (URL ''https://raw.githubusercontent.com/foo/bar/main/README.md''))"
    by code_simp
  have r1: "fst (build_raw_github_url demo_net ''baz'' ''qux'' None None)
              = Inr (Some (URL ''https://raw.githubusercontent.com/baz/qux/master/README.md''))"
    by code_simp
  from stars_resolved_in_input_order [OF imp ord, of render_str]
  obtain urls where u: "import_github_stars demo_net parse_fixed_utc render_str [1, 0]
                          ''octocat'' (Some 2) = Some (Inr urls)"
    "length urls = 2"
    "\<forall>i<2. fst (build_raw_github_url demo_net (render_str (owner (?ids ! i)))
                        (render_str (repo_name (?ids ! i))) None None) = Inr (urls ! i)"
    by auto
  from u(3) [rule_format, of 0] r0
  have "urls ! 0 = Some (URL ''https://raw.githubusercontent.com/foo/bar/main/README.md'')"
    by simp
  moreover from u(3) [rule_format, of 1] r1
  have "urls ! 1 = Some (URL ''https://raw.githubusercontent.com/baz/qux/master/README.md'')"
    by simp
  ultimately have "urls = [Some (URL ''https://raw.githubusercontent.com/foo/bar/main/README.md''),
                    Some (URL ''https://raw.githubusercontent.com/baz/qux/master/README.md'')]"
    using u(2) by (intro nth_equalityI) (auto simp: less_Suc_eq numeral_2_eq_2)
  with u(1) imp show ?thesis by auto
qed

end
